theory Spec2Isabelle
  imports Complex_Main "HOL-Library.Signed_Division"
begin

section \<open>A model of C++ \<^verbatim>\<open>double\<close>\<close>

text \<open>
  Every number the Terrestrial domain computes with is a C++ \<^verbatim>\<open>double\<close>
  (\<^verbatim>\<open>coord_type\<close> is \<^verbatim>\<open>double\<close> too).  The comparator of
  \<^verbatim>\<open>FloatingPointComparison.h\<close> is written around the special values of IEEE 754
  (its shortcut ``handles infinities''), so the model keeps them: a \<open>double\<close> is a
  finite value, one of the two infinities, or not-a-number.  The two signed zeros are
  one value, \<open>Finite 0\<close>, and a division by it takes it as the positive zero; there is
  one not-a-number.  The special values follow IEEE 754: an operation with a
  not-a-number operand yields not-a-number, every ordered comparison and \<^verbatim>\<open>==\<close> with
  a not-a-number operand is false, \<open>\<infinity> - \<infinity>\<close>, \<open>0 \<sqdot> \<infinity>\<close>, \<open>0 / 0\<close> and \<open>\<infinity> / \<infinity>\<close> are
  not-a-number.

  Finite values are carried as reals, and there are two arithmetics on them.
  \<^item> The exact operations \<open>dadd\<close>, \<open>dsub\<close>, \<open>dmul\<close> and \<open>ddiv\<close> yield the exact real
    result.  The formulas of \<^verbatim>\<open>Terrestrial.h\<close> are translated with them, and the
    theorems about these formulas are theorems about exact arithmetic, without
    rounding and without overflow.
  \<^item> The binary64 operations \<open>add64\<close>, \<open>sub64\<close>, \<open>mul64\<close> and \<open>div64\<close> round the
    exact result to the nearest representable number, ties to even, with gradual
    underflow and with overflow to an infinity, as IEEE 754 defines the operations of a
    \<^verbatim>\<open>double\<close>.  The comparator is translated with them: its result is a comparison
    of computed values, which rounding, overflow and underflow decide.
\<close>

datatype double = Finite real | PInf | NInf | NaN

fun dneg :: "double \<Rightarrow> double" where
  "dneg (Finite x) = Finite (- x)"
| "dneg PInf = NInf"
| "dneg NInf = PInf"
| "dneg NaN = NaN"

text \<open>\<^verbatim>\<open>std::abs\<close>\<close>

fun dabs :: "double \<Rightarrow> double" where
  "dabs (Finite x) = Finite \<bar>x\<bar>"
| "dabs PInf = PInf"
| "dabs NInf = PInf"
| "dabs NaN = NaN"

fun dadd :: "double \<Rightarrow> double \<Rightarrow> double" where
  "dadd NaN _ = NaN"
| "dadd _ NaN = NaN"
| "dadd (Finite x) (Finite y) = Finite (x + y)"
| "dadd PInf NInf = NaN"
| "dadd NInf PInf = NaN"
| "dadd PInf _ = PInf"
| "dadd _ PInf = PInf"
| "dadd NInf _ = NInf"
| "dadd _ NInf = NInf"

definition dsub :: "double \<Rightarrow> double \<Rightarrow> double" where
  "dsub a b = dadd a (dneg b)"

text \<open>An infinity of the sign of a finite, non-zero real.\<close>

definition inf_of_sign :: "real \<Rightarrow> double" where
  "inf_of_sign s = (if 0 < s then PInf else NInf)"

fun dmul :: "double \<Rightarrow> double \<Rightarrow> double" where
  "dmul NaN _ = NaN"
| "dmul _ NaN = NaN"
| "dmul (Finite x) (Finite y) = Finite (x * y)"
| "dmul (Finite x) PInf = (if x = 0 then NaN else inf_of_sign x)"
| "dmul (Finite x) NInf = (if x = 0 then NaN else inf_of_sign (- x))"
| "dmul PInf (Finite y) = (if y = 0 then NaN else inf_of_sign y)"
| "dmul NInf (Finite y) = (if y = 0 then NaN else inf_of_sign (- y))"
| "dmul PInf PInf = PInf"
| "dmul PInf NInf = NInf"
| "dmul NInf PInf = NInf"
| "dmul NInf NInf = PInf"

fun ddiv :: "double \<Rightarrow> double \<Rightarrow> double" where
  "ddiv NaN _ = NaN"
| "ddiv _ NaN = NaN"
| "ddiv (Finite x) (Finite y) =
     (if y = 0 then (if x = 0 then NaN else inf_of_sign x) else Finite (x / y))"
| "ddiv (Finite x) PInf = Finite 0"
| "ddiv (Finite x) NInf = Finite 0"
| "ddiv PInf (Finite y) = (if 0 \<le> y then PInf else NInf)"
| "ddiv NInf (Finite y) = (if 0 \<le> y then NInf else PInf)"
| "ddiv PInf PInf = NaN"
| "ddiv PInf NInf = NaN"
| "ddiv NInf PInf = NaN"
| "ddiv NInf NInf = NaN"

text \<open>The comparison \<^verbatim>\<open><\<close>.\<close>

fun dlt :: "double \<Rightarrow> double \<Rightarrow> bool" where
  "dlt NaN _ = False"
| "dlt _ NaN = False"
| "dlt (Finite x) (Finite y) = (x < y)"
| "dlt (Finite x) PInf = True"
| "dlt (Finite x) NInf = False"
| "dlt PInf _ = False"
| "dlt NInf (Finite y) = True"
| "dlt NInf PInf = True"
| "dlt NInf NInf = False"

text \<open>The comparison \<^verbatim>\<open>==\<close>: a not-a-number is equal to nothing, itself included.\<close>

fun deq :: "double \<Rightarrow> double \<Rightarrow> bool" where
  "deq NaN _ = False"
| "deq _ NaN = False"
| "deq a b = (a = b)"

text \<open>A value is finite when it is neither an infinity nor not-a-number.\<close>

fun is_finite :: "double \<Rightarrow> bool" where
  "is_finite (Finite x) = True"
| "is_finite _ = False"

text \<open>
  \<^verbatim>\<open>sin\<close>, \<^verbatim>\<open>cos\<close>, \<^verbatim>\<open>sqrt\<close> and \<^verbatim>\<open>asin\<close> of \<^verbatim>\<open><cmath>\<close>: the sine
  and cosine of an infinity, the square root of a negative number and the arc sine of a
  number outside \<open>[-1, 1]\<close> are not-a-number.
\<close>

fun dsin :: "double \<Rightarrow> double" where
  "dsin (Finite x) = Finite (sin x)"
| "dsin _ = NaN"

fun dcos :: "double \<Rightarrow> double" where
  "dcos (Finite x) = Finite (cos x)"
| "dcos _ = NaN"

fun dsqrt :: "double \<Rightarrow> double" where
  "dsqrt (Finite x) = (if x < 0 then NaN else Finite (sqrt x))"
| "dsqrt PInf = PInf"
| "dsqrt _ = NaN"

fun dasin :: "double \<Rightarrow> double" where
  "dasin (Finite x) = (if x < - 1 \<or> 1 < x then NaN else Finite (arcsin x))"
| "dasin _ = NaN"

subsection \<open>Rounding to binary64\<close>

text \<open>\<open>pow2 e\<close> is \<open>2\<^sup>e\<close> for an integer \<open>e\<close>.\<close>

definition pow2 :: "int \<Rightarrow> real" where
  "pow2 e = (if 0 \<le> e then 2 ^ nat e else 1 / 2 ^ nat (- e))"

text \<open>The nearest integer, the even one of the two when both are equally near.\<close>

definition round_half_even :: "real \<Rightarrow> int" where
  "round_half_even r =
     (let f = \<lfloor>r\<rfloor>; d = r - of_int f
      in if d < 1 / 2 then f
         else if 1 / 2 < d then f + 1
         else if even f then f else f + 1)"

text \<open>
  The \<^verbatim>\<open>double\<close> nearest to a real.  A binary64 number has 53 significant bits and
  its exponent is at least \<open>-1022\<close>: a real \<open>x\<close> with \<open>2\<^sup>k \<le> |x| < 2\<^sup>k\<^sup>+\<^sup>1\<close> is rounded to
  a multiple of \<open>2\<^sup>e\<close> with \<open>e = max k (-1022) - 52\<close>, which for \<open>k < -1022\<close> is the
  spacing \<open>2\<^sup>-\<^sup>1\<^sup>0\<^sup>7\<^sup>4\<close> of the subnormal numbers.  A result of magnitude \<open>2\<^sup>1\<^sup>0\<^sup>2\<^sup>4\<close> or more
  is the infinity of that sign.  A literal of the source is the rounding of its
  decimal value.
\<close>

definition round_double :: "real \<Rightarrow> double" where
  "round_double x =
     (if x = 0 then Finite 0
      else (let e = max \<lfloor>log 2 \<bar>x\<bar>\<rfloor> (- 1022) - 52;
                y = of_int (round_half_even (x / pow2 e)) * pow2 e
            in if pow2 1024 \<le> \<bar>y\<bar> then inf_of_sign x else Finite y))"

text \<open>
  A binary64 operation is the exact operation followed by the rounding of a finite
  result; an infinity and not-a-number are kept.
\<close>

fun rnd :: "double \<Rightarrow> double" where
  "rnd (Finite x) = round_double x"
| "rnd a = a"

definition add64 :: "double \<Rightarrow> double \<Rightarrow> double" where
  "add64 a b = rnd (dadd a b)"

definition sub64 :: "double \<Rightarrow> double \<Rightarrow> double" where
  "sub64 a b = rnd (dsub a b)"

definition mul64 :: "double \<Rightarrow> double \<Rightarrow> double" where
  "mul64 a b = rnd (dmul a b)"

definition div64 :: "double \<Rightarrow> double \<Rightarrow> double" where
  "div64 a b = rnd (ddiv a b)"

text \<open>
  \<^verbatim>\<open>std::numeric_limits<double>::epsilon()\<close> is \<open>2\<^sup>-\<^sup>5\<^sup>2\<close> and
  \<^verbatim>\<open>std::numeric_limits<double>::min()\<close>, the smallest positive normal value, is
  \<open>2\<^sup>-\<^sup>1\<^sup>0\<^sup>2\<^sup>2\<close>.
\<close>

definition numeric_limits_epsilon :: double where
  "numeric_limits_epsilon = Finite (1 / 2 ^ 52)"

definition numeric_limits_min :: double where
  "numeric_limits_min = Finite (1 / 2 ^ 1022)"


section \<open>FloatingPointComparison.h\<close>

text \<open>The two constants are the literal \<^verbatim>\<open>1e-5\<close>.\<close>

definition EQUALITY_RELATIVE_TOLERANCE :: double where
  "EQUALITY_RELATIVE_TOLERANCE = round_double (1 / 10 ^ 5)"

definition ZERO_ABSOLUTE_TOLERANCE :: double where
  "ZERO_ABSOLUTE_TOLERANCE = round_double (1 / 10 ^ 5)"

text \<open>
  \<^verbatim>\<open>almost_zero(z, epsilon)\<close>.  The default of \<^verbatim>\<open>epsilon\<close> in the source is
  \<^verbatim>\<open>EQUALITY_RELATIVE_TOLERANCE\<close>; a call without the second argument is
  \<open>almost_zero z EQUALITY_RELATIVE_TOLERANCE\<close>.
\<close>

definition almost_zero :: "double \<Rightarrow> double \<Rightarrow> bool" where
  "almost_zero z epsilon = dlt (dabs z) epsilon"

text \<open>
  \<^verbatim>\<open>almost_equal(a, b, tolerance)\<close>, branch for branch, in binary64 arithmetic.  The
  literal \<^verbatim>\<open>0\<close> that \<^verbatim>\<open>a\<close> and \<^verbatim>\<open>b\<close> are compared with is converted to
  \<^verbatim>\<open>double\<close>.
\<close>

definition almost_equal :: "double \<Rightarrow> double \<Rightarrow> double \<Rightarrow> bool" where
  "almost_equal a b tolerance =
     (let abs_a = dabs a;
          abs_b = dabs b;
          diff = dabs (sub64 a b)
      in if deq a b then True
         else if deq a (Finite 0) \<or> deq b (Finite 0) \<or> dlt diff numeric_limits_epsilon
           then dlt diff (mul64 tolerance numeric_limits_min)
         else dlt (div64 diff (add64 abs_a abs_b)) tolerance)"



section \<open>Terrestrial.h: points\<close>

text \<open>
  A \<^verbatim>\<open>TerrestrialPoint\<close> is a \<^verbatim>\<open>PointLonLat\<close>: coordinate 0 is the longitude and
  coordinate 1 the latitude, both in degrees.  A \<^verbatim>\<open>TerrestrialTrajectoryPoint\<close> is a
  \<^verbatim>\<open>TrajectoryPoint<TerrestrialPoint>\<close>: the point, a timestamp and the property
  store.  The classes \<^verbatim>\<open>PointLonLat\<close> and \<^verbatim>\<open>TrajectoryPoint\<close> are declared in
  other headers; the records carry the members the specification lists for them
  (section 3: a property maps a name to a real number, a text or a timestamp, and a
  name may be absent).

  A timestamp is a \<^verbatim>\<open>boost::posix_time::ptime\<close>, modelled by its count of
  microseconds; the difference of two timestamps is a duration in microseconds, and
  \<^verbatim>\<open>total_seconds()\<close> is its number of whole seconds, the fraction cut off towards
  zero.  The special values of \<^verbatim>\<open>ptime\<close> are not modelled, and the integer type of
  the seconds is taken without a bound.
\<close>

type_synonym coord_type = double

type_synonym Timestamp = int

datatype PropertyValueT =
  RealProperty double | StringProperty string | TimestampProperty Timestamp

record TerrestrialPoint =
  longitude :: coord_type
  latitude :: coord_type

record TerrestrialTrajectoryPoint = TerrestrialPoint +
  timestamp :: Timestamp
  Properties :: "string \<rightharpoonup> PropertyValueT"

type_synonym PointCartesian3 = "coord_type \<times> coord_type \<times> coord_type"

definition total_seconds :: "int \<Rightarrow> int" where
  "total_seconds duration = duration sdiv 1000000"

text \<open>The exception class of the domain; it carries the name of the property.\<close>

datatype error = PropertyDoesNotExist string

text \<open>
  Modelled from the spec: \<^verbatim>\<open>conversions::radians\<close> of
  \<^verbatim>\<open>tracktable/Core/Conversions.h\<close>, a header that is not part of the files
  translated here.  It converts an angle in degrees to radians (specification,
  section 4.4).
\<close>

definition radians :: "double \<Rightarrow> double" where
  "radians degrees = dmul degrees (Finite (pi / 180))"

text \<open>
  Modelled from the spec: \<^verbatim>\<open>conversions::radians_to_km\<close> of the same header.  It
  multiplies an angle in radians by Earth's mean radius in kilometres (specification,
  section 4.3).  The specification does not give the radius, so it is a parameter,
  \<open>EARTH_RADIUS_IN_KM\<close>, a finite number.
\<close>

definition radians_to_km :: "real \<Rightarrow> double \<Rightarrow> double" where
  "radians_to_km EARTH_RADIUS_IN_KM r = dmul r (Finite EARTH_RADIUS_IN_KM)"

text \<open>
  Modelled from the spec: the accessor \<^verbatim>\<open>real_property(name, &ok)\<close> of
  \<^verbatim>\<open>TrajectoryPoint\<close> (\<^verbatim>\<open>tracktable/Core/TrajectoryPoint.h\<close>, a header that is
  not part of the files translated here).  By section 4.2 of the specification it returns the number stored under the
  name and sets the flag, and when there is no such number it clears the flag and returns
  an unspecified placeholder.  The placeholder is the parameter \<open>placeholder\<close>; the
  result is the returned number paired with the flag.
\<close>

definition real_property ::
  "double \<Rightarrow> 'a TerrestrialTrajectoryPoint_scheme \<Rightarrow> string \<Rightarrow> double \<times> bool" where
  "real_property placeholder p name =
     (case Properties p name of
        Some (RealProperty v) \<Rightarrow> (v, True)
      | _ \<Rightarrow> (placeholder, False))"

text \<open>
  Modelled from the spec: the store of the point has a real property of that name
  (section 3: a name is mapped to a real number, a text or a timestamp, or is
  absent).
\<close>

definition has_real_property :: "'a TerrestrialTrajectoryPoint_scheme \<Rightarrow> string \<Rightarrow> bool" where
  "has_real_property p name =
     (case Properties p name of Some (RealProperty v) \<Rightarrow> True | _ \<Rightarrow> False)"


section \<open>Terrestrial.h: Earth-centred, Earth-fixed coordinates\<close>

text \<open>
  \<^verbatim>\<open>TerrestrialPoint::ECEF_from_km\<close>.  In the source \<^verbatim>\<open>e2 * sinLatitude * sinLatitude\<close>
  associates to the left, and the three coordinates are the array \<^verbatim>\<open>pt\<close>.
\<close>

definition ECEF_from_km :: "coord_type \<Rightarrow> coord_type \<Rightarrow> double \<Rightarrow> PointCartesian3" where
  "ECEF_from_km longitude' latitude' altitude' =
     (let a = Finite 6378.137;
          e2 = dmul (Finite 0.081819190842622) (Finite 0.081819190842622);
          sinLatitude = dsin latitude';
          n = ddiv a (dsqrt (dsub (Finite 1) (dmul (dmul e2 sinLatitude) sinLatitude)));
          NAC = dmul (dadd n altitude') (dcos latitude')
      in (dmul NAC (dcos longitude'),
          dmul NAC (dsin longitude'),
          dmul (dadd (dmul n (dsub (Finite 1) e2)) altitude') sinLatitude))"

text \<open>
  \<^verbatim>\<open>TerrestrialTrajectoryPoint::ECEF(ratio, _altitudeString)\<close>.  The product with
  \<^verbatim>\<open>ratio\<close> is computed before the flag is tested, as in the source; the exception is
  the \<open>Inl\<close> result.
\<close>

definition ECEF ::
  "double \<Rightarrow> 'a TerrestrialTrajectoryPoint_scheme \<Rightarrow> double \<Rightarrow> string
     \<Rightarrow> error + PointCartesian3" where
  "ECEF placeholder p ratio altitudeString =
     (let (v, ok) = real_property placeholder p altitudeString;
          altitude' = dmul ratio v
      in if \<not> ok then Inl (PropertyDoesNotExist altitudeString)
         else (let longitude' = radians (longitude p);
                   latitude' = radians (latitude p)
               in Inr (ECEF_from_km longitude' latitude' altitude')))"

text \<open>
  \<^verbatim>\<open>ECEF_from_feet\<close> and \<^verbatim>\<open>ECEF_from_meters\<close>; the argument defaults to
  \<^verbatim>\<open>"altitude"\<close> in the source.
\<close>

definition ECEF_from_feet ::
  "double \<Rightarrow> 'a TerrestrialTrajectoryPoint_scheme \<Rightarrow> string \<Rightarrow> error + PointCartesian3" where
  "ECEF_from_feet placeholder p altitudeString =
     (let feetToKilometers = ddiv (Finite 1) (Finite 3280.839895013123)
      in ECEF placeholder p feetToKilometers altitudeString)"

definition ECEF_from_meters ::
  "double \<Rightarrow> 'a TerrestrialTrajectoryPoint_scheme \<Rightarrow> string \<Rightarrow> error + PointCartesian3" where
  "ECEF_from_meters placeholder p altitudeString =
     (let metersToKilometers = ddiv (Finite 1) (Finite 1000)
      in ECEF placeholder p metersToKilometers altitudeString)"


section \<open>Terrestrial.h: distance and speed\<close>

text \<open>
  \<^verbatim>\<open>boost::geometry::distance\<close> belongs to an external library.  It sees a point
  through its registered coordinate access only, so it enters as a parameter
  \<open>bg_distance\<close>, a function of the two coordinate pairs that returns an angle in
  radians.
\<close>

type_synonym lonlat = "coord_type \<times> coord_type"

definition coords :: "'a TerrestrialPoint_scheme \<Rightarrow> lonlat" where
  "coords p = (longitude p, latitude p)"

text \<open>\<^verbatim>\<open>distance<traits::domains::terrestrial>::apply\<close>\<close>

definition distance ::
  "real \<Rightarrow> (lonlat \<Rightarrow> lonlat \<Rightarrow> double)
     \<Rightarrow> 'a TerrestrialPoint_scheme \<Rightarrow> 'b TerrestrialPoint_scheme \<Rightarrow> double" where
  "distance EARTH_RADIUS_IN_KM bg_distance from to =
     (let distance_in_radians = bg_distance (coords from) (coords to)
      in radians_to_km EARTH_RADIUS_IN_KM distance_in_radians)"

text \<open>
  \<^verbatim>\<open>speed_between<TerrestrialTrajectoryPoint>::apply\<close>.  The call of
  \<^verbatim>\<open>tracktable::distance\<close> on two terrestrial points is the function above; the
  second argument of \<^verbatim>\<open>almost_zero\<close> is its default.
\<close>

definition speed_between ::
  "real \<Rightarrow> (lonlat \<Rightarrow> lonlat \<Rightarrow> double)
     \<Rightarrow> 'a TerrestrialTrajectoryPoint_scheme \<Rightarrow> 'a TerrestrialTrajectoryPoint_scheme \<Rightarrow> double" where
  "speed_between EARTH_RADIUS_IN_KM bg_distance from to =
     (let distance_traveled = distance EARTH_RADIUS_IN_KM bg_distance from to;
          seconds_elapsed = Finite (of_int (total_seconds (timestamp to - timestamp from)))
      in if almost_zero seconds_elapsed EQUALITY_RELATIVE_TOLERANCE
         then Finite 0
         else ddiv (dmul (Finite 3600) distance_traveled) seconds_elapsed)"

text \<open>
  A primitive to instantiate \<open>bg_distance\<close> with: the haversine formula on the unit
  sphere, which is the default strategy of the external library for points in
  degrees.
\<close>

definition hav :: "double \<Rightarrow> double" where
  "hav x = dmul (dsin (ddiv x (Finite 2))) (dsin (ddiv x (Finite 2)))"

definition haversine :: "lonlat \<Rightarrow> lonlat \<Rightarrow> double" where
  "haversine p1 p2 =
     (let lon1 = radians (fst p1); lat1 = radians (snd p1);
          lon2 = radians (fst p2); lat2 = radians (snd p2);
          a = dadd (hav (dsub lat2 lat1))
                   (dmul (dmul (dcos lat1) (dcos lat2)) (hav (dsub lon2 lon1)))
      in dmul (Finite 2) (dasin (dsqrt a)))"


section \<open>Terrestrial.h: the delegated algorithms\<close>

text \<open>
  The point classes the delegations name, and the algorithms they are made for.
  \<open>TrajectoryPoint_TerrestrialPoint\<close> is \<^verbatim>\<open>TrajectoryPoint<TerrestrialPoint>\<close>.
\<close>

datatype point_class =
  PointLonLat | TerrestrialPoint_t | TrajectoryPoint_TerrestrialPoint | TerrestrialTrajectoryPoint_t

datatype algorithm =
  interpolate | extrapolate | bearing | signed_turn_angle | spherical_coordinate_access
  | unsigned_turn_angle

text \<open>
  An invocation \<^verbatim>\<open>TRACKTABLE_DELEGATE(NEW, BASE, ALGORITHM)\<close> is recorded as the triple
  of its arguments.  The two macros of \<^verbatim>\<open>Terrestrial.h\<close> fix the first two.
\<close>

type_synonym delegation = "point_class \<times> point_class \<times> algorithm"

definition TT_DELEGATE_BASE_POINT_ALGORITHM :: "algorithm \<Rightarrow> delegation" where
  "TT_DELEGATE_BASE_POINT_ALGORITHM ALGORITHM = (TerrestrialPoint_t, PointLonLat, ALGORITHM)"

definition TT_DELEGATE_TRAJECTORY_POINT_ALGORITHM :: "algorithm \<Rightarrow> delegation" where
  "TT_DELEGATE_TRAJECTORY_POINT_ALGORITHM ALGORITHM =
     (TerrestrialTrajectoryPoint_t, TrajectoryPoint_TerrestrialPoint, ALGORITHM)"

text \<open>The twelve invocations, in the order of the source.\<close>

definition terrestrial_delegations :: "delegation list" where
  "terrestrial_delegations =
     [TT_DELEGATE_BASE_POINT_ALGORITHM interpolate,
      TT_DELEGATE_BASE_POINT_ALGORITHM extrapolate,
      TT_DELEGATE_BASE_POINT_ALGORITHM bearing,
      TT_DELEGATE_BASE_POINT_ALGORITHM signed_turn_angle,
      TT_DELEGATE_BASE_POINT_ALGORITHM spherical_coordinate_access,
      TT_DELEGATE_BASE_POINT_ALGORITHM unsigned_turn_angle,
      TT_DELEGATE_TRAJECTORY_POINT_ALGORITHM interpolate,
      TT_DELEGATE_TRAJECTORY_POINT_ALGORITHM extrapolate,
      TT_DELEGATE_TRAJECTORY_POINT_ALGORITHM bearing,
      TT_DELEGATE_TRAJECTORY_POINT_ALGORITHM signed_turn_angle,
      TT_DELEGATE_TRAJECTORY_POINT_ALGORITHM spherical_coordinate_access,
      TT_DELEGATE_TRAJECTORY_POINT_ALGORITHM unsigned_turn_angle]"

text \<open>
  Modelled from the spec: the macro \<^verbatim>\<open>TRACKTABLE_DELEGATE\<close> of
  \<^verbatim>\<open>tracktable/Domain/DomainMacros.h\<close>, a header that is not part of the files
  translated here.  By sections 2
  and 4.3 of the specification a delegated operation forwards to the generic
  implementation unchanged.  So the implementation an algorithm has for a class is the
  generic implementation for the base class the first matching delegation names, and
  the generic implementation for the class itself when no delegation matches.  The
  generic implementations are outside this file: \<open>generic\<close> is a parameter and an
  implementation is a value of any type.
\<close>

fun TRACKTABLE_DELEGATE ::
  "delegation list \<Rightarrow> (point_class \<Rightarrow> algorithm \<Rightarrow> 'impl) \<Rightarrow> point_class \<Rightarrow> algorithm \<Rightarrow> 'impl" where
  "TRACKTABLE_DELEGATE [] generic T A = generic T A"
| "TRACKTABLE_DELEGATE ((NEW, BASE, ALGORITHM) # ds) generic T A =
     (if NEW = T \<and> ALGORITHM = A then generic BASE A
      else TRACKTABLE_DELEGATE ds generic T A)"

definition terrestrial_algorithm ::
  "(point_class \<Rightarrow> algorithm \<Rightarrow> 'impl) \<Rightarrow> point_class \<Rightarrow> algorithm \<Rightarrow> 'impl" where
  "terrestrial_algorithm generic T A = TRACKTABLE_DELEGATE terrestrial_delegations generic T A"


section \<open>Properties of the rounding\<close>

lemma pow2_powr: "pow2 k = 2 powr (of_int k)"
  by (simp add: pow2_def powr_int)

lemma pow2_pos: "0 < pow2 k"
  by (simp add: pow2_def)

lemma round_double_0: "round_double 0 = Finite 0"
  by (simp add: round_double_def)

lemma floor_log2_eq:
  assumes "pow2 k \<le> \<bar>x\<bar>" and "\<bar>x\<bar> < pow2 (k + 1)"
  shows "\<lfloor>log 2 \<bar>x\<bar>\<rfloor> = k"
proof -
  have "0 < \<bar>x\<bar>" using assms(1) pow2_pos [of k] by linarith
  then show ?thesis
    using assms floor_log_eq_powr_iff [of "\<bar>x\<bar>" 2 k] by (simp add: pow2_powr)
qed

text \<open>The rounding of a real whose binary exponent \<open>k\<close> is known.\<close>

lemma round_double_eval:
  assumes "pow2 k \<le> \<bar>x\<bar>" and "\<bar>x\<bar> < pow2 (k + 1)"
  shows "round_double x =
     (let e = max k (- 1022) - 52;
          y = of_int (round_half_even (x / pow2 e)) * pow2 e
      in if pow2 1024 \<le> \<bar>y\<bar> then inf_of_sign x else Finite y)"
proof -
  have "x \<noteq> 0" using assms(1) pow2_pos [of k] by auto
  then show ?thesis
    by (simp add: round_double_def floor_log2_eq [OF assms])
qed

lemma round_half_even_near:
  assumes "of_int m - 1 / 2 < r" and "r < of_int m + 1 / 2"
  shows "round_half_even r = m"
proof (cases "of_int m \<le> r")
  case True
  then have "\<lfloor>r\<rfloor> = m" using assms by linarith
  then show ?thesis using assms by (simp add: round_half_even_def Let_def)
next
  case False
  then have "\<lfloor>r\<rfloor> = m - 1" using assms by linarith
  then show ?thesis using assms False by (simp add: round_half_even_def Let_def)
qed

lemma round_half_even_tie_even:
  assumes "r = of_int m + 1 / 2" and "even m"
  shows "round_half_even r = m"
proof -
  have "\<lfloor>r\<rfloor> = m" using assms(1) by linarith
  then show ?thesis using assms by (simp add: round_half_even_def Let_def)
qed

lemma round_half_even_tie_odd:
  assumes "r = of_int m + 1 / 2" and "odd m"
  shows "round_half_even r = m + 1"
proof -
  have "\<lfloor>r\<rfloor> = m" using assms(1) by linarith
  then show ?thesis using assms by (simp add: round_half_even_def Let_def)
qed

text \<open>
  Four ways to compute a rounding: the scaled real is nearer to the integer \<open>m\<close> than
  to any other; it is halfway between \<open>m\<close> and \<open>m + 1\<close>, with \<open>m\<close> even or odd; the
  rounded magnitude is \<open>2\<^sup>1\<^sup>0\<^sup>2\<^sup>4\<close> or more.
\<close>

lemma round_double_near:
  assumes "pow2 k \<le> \<bar>x\<bar>" and "\<bar>x\<bar> < pow2 (k + 1)"
    and "e = max k (- 1022) - 52"
    and "of_int m - 1 / 2 < x / pow2 e" and "x / pow2 e < of_int m + 1 / 2"
    and "\<bar>of_int m * pow2 e\<bar> < pow2 1024"
  shows "round_double x = Finite (of_int m * pow2 e)"
  using assms(6)
  by (simp add: round_double_eval [OF assms(1,2)] assms(3) [symmetric]
      round_half_even_near [OF assms(4,5)] Let_def)

lemma round_double_tie_even:
  assumes "pow2 k \<le> \<bar>x\<bar>" and "\<bar>x\<bar> < pow2 (k + 1)"
    and "e = max k (- 1022) - 52"
    and "x / pow2 e = of_int m + 1 / 2" and "even m"
    and "\<bar>of_int m * pow2 e\<bar> < pow2 1024"
  shows "round_double x = Finite (of_int m * pow2 e)"
  using assms(6)
  by (simp add: round_double_eval [OF assms(1,2)] assms(3) [symmetric]
      round_half_even_tie_even [OF assms(4,5)] Let_def)

lemma round_double_tie_odd:
  assumes "pow2 k \<le> \<bar>x\<bar>" and "\<bar>x\<bar> < pow2 (k + 1)"
    and "e = max k (- 1022) - 52"
    and "x / pow2 e = of_int m + 1 / 2" and "odd m"
    and "\<bar>of_int (m + 1) * pow2 e\<bar> < pow2 1024"
  shows "round_double x = Finite (of_int (m + 1) * pow2 e)"
  using assms(6)
  by (simp add: round_double_eval [OF assms(1,2)] assms(3) [symmetric]
      round_half_even_tie_odd [OF assms(4,5)] Let_def)

lemma round_double_overflow:
  assumes "pow2 k \<le> \<bar>x\<bar>" and "\<bar>x\<bar> < pow2 (k + 1)"
    and "e = max k (- 1022) - 52"
    and "of_int m - 1 / 2 < x / pow2 e" and "x / pow2 e < of_int m + 1 / 2"
    and "pow2 1024 \<le> \<bar>of_int m * pow2 e\<bar>"
  shows "round_double x = inf_of_sign x"
  using assms(6)
  by (simp add: round_double_eval [OF assms(1,2)] assms(3) [symmetric]
      round_half_even_near [OF assms(4,5)] Let_def)


section \<open>Properties of the comparator\<close>

text \<open>The literal \<^verbatim>\<open>1e-5\<close> as a \<^verbatim>\<open>double\<close>: a little more than \<open>10\<^sup>-\<^sup>5\<close>.\<close>

lemma tolerance_value: "EQUALITY_RELATIVE_TOLERANCE = Finite (5902958103587057 / 2 ^ 69)"
  unfolding EQUALITY_RELATIVE_TOLERANCE_def
  apply (subst round_double_near [where k = "- 17" and m = 5902958103587057 and e = "- 69"])
  apply (simp_all add: pow2_def)
  done

text \<open>The comparison \<^verbatim>\<open>==\<close> holds of equal operands that are not not-a-number.\<close>

lemma deq_iff: "deq a b = (a = b \<and> a \<noteq> NaN)"
  by (cases a; cases b) simp_all

lemma almost_equal_NaN_left: "almost_equal NaN b tol = False"
  by (cases b; cases tol)
    (simp_all add: almost_equal_def Let_def sub64_def mul64_def div64_def add64_def dsub_def
      numeric_limits_epsilon_def numeric_limits_min_def)

lemma almost_equal_NaN_right: "almost_equal a NaN tol = False"
  by (cases a; cases tol)
    (simp_all add: almost_equal_def Let_def sub64_def mul64_def div64_def add64_def dsub_def
      numeric_limits_epsilon_def numeric_limits_min_def)


text \<open>
  The two examples of the specification, \<^verbatim>\<open>almost_equal(1.0, 1.00002)\<close> and
  \<^verbatim>\<open>almost_equal(1.0, 1.1)\<close>, each operation rounded.
\<close>

lemma almost_equal_1_and_1_00002:
  "almost_equal (Finite 1) (round_double 1.00002) EQUALITY_RELATIVE_TOLERANCE"
proof -
  have lit: "round_double 1.00002 = Finite (4503689699363043 / 2 ^ 52)"
    apply (subst round_double_near [where k = "0" and m = "4503689699363043" and e = "- 52"])
    apply (simp_all add: pow2_def)
    done
  have diff: "dabs (sub64 (Finite 1) (Finite (4503689699363043 / 2 ^ 52))) = Finite (90071992547 / 2 ^ 52)"
    apply (simp add: add64_def sub64_def mul64_def div64_def dsub_def round_double_0)
    apply (subst round_double_near [where k = "- 16" and m = "- 5902958103560192" and e = "- 68"])
    apply (simp_all add: pow2_def)
    done
  have sum: "add64 (dabs (Finite 1)) (dabs (Finite (4503689699363043 / 2 ^ 52))) = Finite (2251822331683385 / 2 ^ 50)"
    apply (simp add: add64_def sub64_def mul64_def div64_def dsub_def round_double_0)
    apply (subst round_double_tie_odd [where k = "1" and m = "4503644663366769" and e = "- 51"])
    apply (simp_all add: pow2_def)
    done
  have q: "div64 (Finite (90071992547 / 2 ^ 52)) (Finite (2251822331683385 / 2 ^ 50)) = Finite (2951449537284723 / 2 ^ 68)"
    apply (simp add: add64_def sub64_def mul64_def div64_def dsub_def round_double_0)
    apply (subst round_double_near [where k = "- 17" and m = "5902899074569446" and e = "- 69"])
    apply (simp_all add: pow2_def)
    done
  show ?thesis
    unfolding almost_equal_def Let_def lit diff sum q
    by (simp add: tolerance_value numeric_limits_epsilon_def)
qed

lemma almost_equal_1_and_1_1:
  "\<not> almost_equal (Finite 1) (round_double 1.1) EQUALITY_RELATIVE_TOLERANCE"
proof -
  have lit: "round_double 1.1 = Finite (2476979795053773 / 2 ^ 51)"
    apply (subst round_double_near [where k = "0" and m = "4953959590107546" and e = "- 52"])
    apply (simp_all add: pow2_def)
    done
  have diff: "dabs (sub64 (Finite 1) (Finite (2476979795053773 / 2 ^ 51))) = Finite (225179981368525 / 2 ^ 51)"
    apply (simp add: add64_def sub64_def mul64_def div64_def dsub_def round_double_0)
    apply (subst round_double_near [where k = "- 4" and m = "- 7205759403792800" and e = "- 56"])
    apply (simp_all add: pow2_def)
    done
  have sum: "add64 (dabs (Finite 1)) (dabs (Finite (2476979795053773 / 2 ^ 51))) = Finite (4728779608739021 / 2 ^ 51)"
    apply (simp add: add64_def sub64_def mul64_def div64_def dsub_def round_double_0)
    apply (subst round_double_near [where k = "1" and m = "4728779608739021" and e = "- 51"])
    apply (simp_all add: pow2_def)
    done
  have q: "div64 (Finite (225179981368525 / 2 ^ 51)) (Finite (4728779608739021 / 2 ^ 51)) = Finite (3431314001806095 / 2 ^ 56)"
    apply (simp add: add64_def sub64_def mul64_def div64_def dsub_def round_double_0)
    apply (subst round_double_near [where k = "- 5" and m = "6862628003612190" and e = "- 57"])
    apply (simp_all add: pow2_def)
    done
  show ?thesis
    unfolding almost_equal_def Let_def lit diff sum q
    by (simp add: tolerance_value numeric_limits_epsilon_def)
qed

text \<open>
  Three pairs of operands at which the rounding decides the result.  The sum of the
  magnitudes of \<open>2\<^sup>1\<^sup>0\<^sup>2\<^sup>3\<close> and \<open>3 \<sqdot> 2\<^sup>1\<^sup>0\<^sup>2\<^sup>2\<close> overflows to infinity, the quotient is
  zero and the result is true, although the relative error is \<open>1/5\<close>.  For the second
  pair the sum is a tie that rounds to even and the quotient rounds to the tolerance
  itself, so the result is false.  For the third the product of the tolerance and the
  smallest normal number underflows to the smallest subnormal number, which is the
  difference, so the result is false.
\<close>

lemma almost_equal_sum_overflows:
  "almost_equal (Finite (2 ^ 1023)) (Finite (3 * 2 ^ 1022)) EQUALITY_RELATIVE_TOLERANCE"
proof -
  have diff: "dabs (sub64 (Finite (2 ^ 1023)) (Finite (3 * 2 ^ 1022))) = Finite (2 ^ 1022)"
    apply (simp add: add64_def sub64_def mul64_def div64_def dsub_def round_double_0)
    apply (subst round_double_near [where k = "1022" and m = "- 4503599627370496" and e = "970"])
    apply (simp_all add: pow2_def)
    done
  have sum: "add64 (dabs (Finite (2 ^ 1023))) (dabs (Finite (3 * 2 ^ 1022))) = PInf"
    apply (simp add: add64_def sub64_def mul64_def div64_def dsub_def round_double_0)
    apply (subst round_double_overflow [where k = "1024" and m = "5629499534213120" and e = "972"])
    apply (simp_all add: pow2_def inf_of_sign_def)
    done
  have q: "div64 (Finite (2 ^ 1022)) PInf = Finite 0"
    by (simp add: div64_def round_double_0)
  show ?thesis
    unfolding almost_equal_def Let_def diff sum q
    by (simp add: tolerance_value numeric_limits_epsilon_def)
qed

lemma almost_equal_quotient_rounds_to_tolerance:
  "\<not> almost_equal (Finite 4503599627403362) (Finite 4503689700296639) EQUALITY_RELATIVE_TOLERANCE"
proof -
  have diff: "dabs (sub64 (Finite 4503599627403362) (Finite 4503689700296639)) = Finite 90072893277"
    apply (simp add: add64_def sub64_def mul64_def div64_def dsub_def round_double_0)
    apply (subst round_double_near [where k = "36" and m = "- 5903017133801472" and e = "- 16"])
    apply (simp_all add: pow2_def)
    done
  have sum: "add64 (dabs (Finite 4503599627403362)) (dabs (Finite 4503689700296639)) = Finite 9007289327700000"
    apply (simp add: add64_def sub64_def mul64_def div64_def dsub_def round_double_0)
    apply (subst round_double_tie_even [where k = "53" and m = "4503644663850000" and e = "1"])
    apply (simp_all add: pow2_def)
    done
  have q: "div64 (Finite 90072893277) (Finite 9007289327700000) = Finite (5902958103587057 / 2 ^ 69)"
    apply (simp add: add64_def sub64_def mul64_def div64_def dsub_def round_double_0)
    apply (subst round_double_near [where k = "- 17" and m = "5902958103587057" and e = "- 69"])
    apply (simp_all add: pow2_def)
    done
  show ?thesis
    unfolding almost_equal_def Let_def diff sum q
    by (simp add: tolerance_value numeric_limits_epsilon_def)
qed

lemma almost_equal_product_underflows:
  "\<not> almost_equal (Finite 0) (Finite (1 / 2 ^ 1074)) (Finite (5 / 2 ^ 54))"
proof -
  have diff: "dabs (sub64 (Finite 0) (Finite (1 / 2 ^ 1074))) = Finite (1 / 2 ^ 1074)"
    apply (simp add: add64_def sub64_def mul64_def div64_def dsub_def round_double_0)
    apply (subst round_double_near [where k = "- 1074" and m = "- 1" and e = "- 1074"])
    apply (simp_all add: pow2_def)
    done
  have tolmin: "mul64 (Finite (5 / 2 ^ 54)) numeric_limits_min = Finite (1 / 2 ^ 1074)"
    unfolding numeric_limits_min_def
    apply (simp add: add64_def sub64_def mul64_def div64_def dsub_def round_double_0)
    apply (subst round_double_near [where k = "- 1074" and m = "1" and e = "- 1074"])
    apply (simp_all add: pow2_def)
    done
  show ?thesis
    unfolding almost_equal_def Let_def diff tolmin
    by (simp add: tolerance_value numeric_limits_epsilon_def)
qed

text \<open>
  \<^bold>\<open>C2\<close> as the specification has it: \<^verbatim>\<open>almost_equal(1e-10, -1e-10)\<close> is true under
  the default tolerance.  The code returns false there.
\<close>

theorem C2_almost_equal_tiny_opposite_counterexample:
  "\<not> almost_equal (round_double (1 / 10 ^ 10)) (dneg (round_double (1 / 10 ^ 10))) EQUALITY_RELATIVE_TOLERANCE"
proof -
  have lit: "round_double (1 / 10 ^ 10) = Finite (7737125245533627 / 2 ^ 86)"
    apply (subst round_double_near [where k = "- 34" and m = "7737125245533627" and e = "- 86"])
    apply (simp_all add: pow2_def)
    done
  have diff: "dabs (sub64 (Finite (7737125245533627 / 2 ^ 86)) (dneg (Finite (7737125245533627 / 2 ^ 86)))) = Finite (7737125245533627 / 2 ^ 85)"
    apply (simp add: add64_def sub64_def mul64_def div64_def dsub_def round_double_0)
    apply (subst round_double_near [where k = "- 33" and m = "7737125245533627" and e = "- 85"])
    apply (simp_all add: pow2_def)
    done
  have sum: "add64 (dabs (Finite (7737125245533627 / 2 ^ 86))) (dabs (dneg (Finite (7737125245533627 / 2 ^ 86)))) = Finite (7737125245533627 / 2 ^ 85)"
    apply (simp add: add64_def sub64_def mul64_def div64_def dsub_def round_double_0)
    apply (subst round_double_near [where k = "- 33" and m = "7737125245533627" and e = "- 85"])
    apply (simp_all add: pow2_def)
    done
  have q: "div64 (Finite (7737125245533627 / 2 ^ 85)) (Finite (7737125245533627 / 2 ^ 85)) = Finite 1"
    apply (simp add: add64_def sub64_def mul64_def div64_def dsub_def round_double_0)
    apply (subst round_double_near [where k = "0" and m = "4503599627370496" and e = "- 52"])
    apply (simp_all add: pow2_def)
    done
  show ?thesis
    unfolding almost_equal_def Let_def lit diff sum q
    by (simp add: tolerance_value numeric_limits_epsilon_def)
qed

text \<open>
  \<^bold>\<open>C2\<close>, amended: \<^verbatim>\<open>almost_equal(1e-10, -1e-10)\<close> returns false under the default
  tolerance \<open>10\<^sup>-\<^sup>5\<close>.  The operands are different and neither is zero, their
  difference \<open>2 \<sqdot> 10\<^sup>-\<^sup>1\<^sup>0\<close> is not below the machine epsilon, so the relative
  branch decides; the relative error is \<open>1\<close>, which is not below the tolerance.
\<close>

theorem C2_almost_equal_tiny_opposite_false:
  "almost_equal (round_double (1 / 10 ^ 10)) (dneg (round_double (1 / 10 ^ 10))) EQUALITY_RELATIVE_TOLERANCE = False
   \<and> deq (round_double (1 / 10 ^ 10)) (dneg (round_double (1 / 10 ^ 10))) = False
   \<and> deq (round_double (1 / 10 ^ 10)) (Finite 0) = False
   \<and> deq (dneg (round_double (1 / 10 ^ 10))) (Finite 0) = False
   \<and> dlt (dabs (sub64 (round_double (1 / 10 ^ 10)) (dneg (round_double (1 / 10 ^ 10))))) numeric_limits_epsilon = False
   \<and> div64 (dabs (sub64 (round_double (1 / 10 ^ 10)) (dneg (round_double (1 / 10 ^ 10)))))
           (add64 (dabs (round_double (1 / 10 ^ 10))) (dabs (dneg (round_double (1 / 10 ^ 10))))) = Finite 1"
proof -
  have lit: "round_double (1 / 10 ^ 10) = Finite (7737125245533627 / 2 ^ 86)"
    apply (subst round_double_near [where k = "- 34" and m = "7737125245533627" and e = "- 86"])
    apply (simp_all add: pow2_def)
    done
  have diff: "dabs (sub64 (Finite (7737125245533627 / 2 ^ 86)) (dneg (Finite (7737125245533627 / 2 ^ 86)))) = Finite (7737125245533627 / 2 ^ 85)"
    apply (simp add: add64_def sub64_def mul64_def div64_def dsub_def round_double_0)
    apply (subst round_double_near [where k = "- 33" and m = "7737125245533627" and e = "- 85"])
    apply (simp_all add: pow2_def)
    done
  have sum: "add64 (dabs (Finite (7737125245533627 / 2 ^ 86))) (dabs (dneg (Finite (7737125245533627 / 2 ^ 86)))) = Finite (7737125245533627 / 2 ^ 85)"
    apply (simp add: add64_def sub64_def mul64_def div64_def dsub_def round_double_0)
    apply (subst round_double_near [where k = "- 33" and m = "7737125245533627" and e = "- 85"])
    apply (simp_all add: pow2_def)
    done
  have q: "div64 (Finite (7737125245533627 / 2 ^ 85)) (Finite (7737125245533627 / 2 ^ 85)) = Finite 1"
    apply (simp add: add64_def sub64_def mul64_def div64_def dsub_def round_double_0)
    apply (subst round_double_near [where k = "0" and m = "4503599627370496" and e = "- 52"])
    apply (simp_all add: pow2_def)
    done
  show ?thesis
    unfolding almost_equal_def Let_def lit diff sum q
    by (simp add: tolerance_value numeric_limits_epsilon_def)
qed


text \<open>
  \<^bold>\<open>C3\<close>: the three branches of \<^verbatim>\<open>almost_equal\<close>, for all operands and tolerances.
  \<^item> When the operands are identical, which the code tests with \<^verbatim>\<open>a == b\<close> and which
    holds of equal operands that are not not-a-number, the result is true, whatever the
    tolerance.  So \<^verbatim>\<open>almost_equal(a, a)\<close> holds for every finite \<open>a\<close> and for both
    infinities.
  \<^item> Otherwise, when an operand is zero or \<open>|a - b|\<close> is below the machine epsilon, the
    result is \<open>|a - b| < tol \<sqdot> min\<close>, with \<open>min\<close> the smallest positive normal value.
  \<^item> Otherwise the result is \<open>|a - b| / (|a| + |b|) < tol\<close>.
  The difference, the product, the sum and the quotient are the rounded ones the code
  computes.  At the default tolerance \<^verbatim>\<open>almost_equal(1.0, 1.00002)\<close> is true and
  \<^verbatim>\<open>almost_equal(1.0, 1.1)\<close> is false.
\<close>

theorem C3_almost_equal_branches:
  "deq a b = (a = b \<and> a \<noteq> NaN)
   \<and> (deq a b \<longrightarrow> almost_equal a b tol)
   \<and> (\<not> deq a b \<and> (deq a (Finite 0) \<or> deq b (Finite 0)
                     \<or> dlt (dabs (sub64 a b)) numeric_limits_epsilon)
        \<longrightarrow> almost_equal a b tol = dlt (dabs (sub64 a b)) (mul64 tol numeric_limits_min))
   \<and> (\<not> deq a b \<and> \<not> deq a (Finite 0) \<and> \<not> deq b (Finite 0)
       \<and> \<not> dlt (dabs (sub64 a b)) numeric_limits_epsilon
        \<longrightarrow> almost_equal a b tol = dlt (div64 (dabs (sub64 a b)) (add64 (dabs a) (dabs b))) tol)
   \<and> almost_equal (Finite x) (Finite x) tol
   \<and> almost_equal PInf PInf tol
   \<and> almost_equal NInf NInf tol
   \<and> almost_equal (Finite 1) (round_double 1.00002) EQUALITY_RELATIVE_TOLERANCE
   \<and> \<not> almost_equal (Finite 1) (round_double 1.1) EQUALITY_RELATIVE_TOLERANCE"
proof -
  have branch1: "deq a b \<longrightarrow> almost_equal a b tol"
    by (simp add: almost_equal_def)
  have branch2: "\<not> deq a b \<and> (deq a (Finite 0) \<or> deq b (Finite 0)
                     \<or> dlt (dabs (sub64 a b)) numeric_limits_epsilon)
        \<longrightarrow> almost_equal a b tol = dlt (dabs (sub64 a b)) (mul64 tol numeric_limits_min)"
    by (simp add: almost_equal_def Let_def)
  have branch3: "\<not> deq a b \<and> \<not> deq a (Finite 0) \<and> \<not> deq b (Finite 0)
       \<and> \<not> dlt (dabs (sub64 a b)) numeric_limits_epsilon
        \<longrightarrow> almost_equal a b tol = dlt (div64 (dabs (sub64 a b)) (add64 (dabs a) (dabs b))) tol"
    by (simp add: almost_equal_def Let_def)
  have self: "almost_equal (Finite x) (Finite x) tol" "almost_equal PInf PInf tol"
    "almost_equal NInf NInf tol"
    by (simp_all add: almost_equal_def)
  from branch1 branch2 branch3 self almost_equal_1_and_1_00002 almost_equal_1_and_1_1
    deq_iff [of a b]
  show ?thesis by blast
qed

text \<open>
  The three branches at concrete operands: \<open>2\<close> and \<open>2\<close> (first branch), \<open>0\<close> and \<open>1\<close>
  (an operand is zero: the absolute test, which fails), \<open>1\<close> and \<open>3\<close> (relative error
  \<open>1/2\<close>, not below \<open>10\<^sup>-\<^sup>5\<close>).
\<close>

theorem C3_almost_equal_branches_witness:
  "deq (Finite 2) (Finite 2)
   \<and> almost_equal (Finite 2) (Finite 2) EQUALITY_RELATIVE_TOLERANCE
   \<and> \<not> deq (Finite 0) (Finite 1) \<and> deq (Finite 0) (Finite 0)
   \<and> \<not> almost_equal (Finite 0) (Finite 1) EQUALITY_RELATIVE_TOLERANCE
   \<and> \<not> deq (Finite 1) (Finite 3) \<and> \<not> deq (Finite 1) (Finite 0) \<and> \<not> deq (Finite 3) (Finite 0)
   \<and> \<not> dlt (dabs (sub64 (Finite 1) (Finite 3))) numeric_limits_epsilon
   \<and> \<not> almost_equal (Finite 1) (Finite 3) EQUALITY_RELATIVE_TOLERANCE"
proof -
  have d01: "dabs (sub64 (Finite 0) (Finite 1)) = Finite 1"
    apply (simp add: add64_def sub64_def mul64_def div64_def dsub_def round_double_0)
    apply (subst round_double_near [where k = "0" and m = "- 4503599627370496" and e = "- 52"])
    apply (simp_all add: pow2_def)
    done
  have tm: "mul64 EQUALITY_RELATIVE_TOLERANCE numeric_limits_min = Finite (22517998137 / 2 ^ 1073)"
    unfolding tolerance_value numeric_limits_min_def
    apply (simp add: add64_def sub64_def mul64_def div64_def dsub_def round_double_0)
    apply (subst round_double_near [where k = "- 1039" and m = "45035996274" and e = "- 1074"])
    apply (simp_all add: pow2_def)
    done
  have d13: "dabs (sub64 (Finite 1) (Finite 3)) = Finite 2"
    apply (simp add: add64_def sub64_def mul64_def div64_def dsub_def round_double_0)
    apply (subst round_double_near [where k = "1" and m = "- 4503599627370496" and e = "- 51"])
    apply (simp_all add: pow2_def)
    done
  have s13: "add64 (dabs (Finite 1)) (dabs (Finite 3)) = Finite 4"
    apply (simp add: add64_def sub64_def mul64_def div64_def dsub_def round_double_0)
    apply (subst round_double_near [where k = "2" and m = "4503599627370496" and e = "- 50"])
    apply (simp_all add: pow2_def)
    done
  have q13: "div64 (Finite 2) (Finite 4) = Finite (1 / 2 ^ 1)"
    apply (simp add: add64_def sub64_def mul64_def div64_def dsub_def round_double_0)
    apply (subst round_double_near [where k = "- 1" and m = "4503599627370496" and e = "- 53"])
    apply (simp_all add: pow2_def)
    done
  have first: "almost_equal (Finite 2) (Finite 2) EQUALITY_RELATIVE_TOLERANCE"
    using C3_almost_equal_branches [of "Finite 2" "Finite 2" EQUALITY_RELATIVE_TOLERANCE]
    by simp
  have "almost_equal (Finite 0) (Finite 1) EQUALITY_RELATIVE_TOLERANCE =
          dlt (dabs (sub64 (Finite 0) (Finite 1)))
              (mul64 EQUALITY_RELATIVE_TOLERANCE numeric_limits_min)"
    using C3_almost_equal_branches [of "Finite 0" "Finite 1" EQUALITY_RELATIVE_TOLERANCE]
    by simp
  then have second: "\<not> almost_equal (Finite 0) (Finite 1) EQUALITY_RELATIVE_TOLERANCE"
    unfolding d01 tm by simp
  have large: "\<not> dlt (dabs (sub64 (Finite 1) (Finite 3))) numeric_limits_epsilon"
    unfolding d13 by (simp add: numeric_limits_epsilon_def)
  then have "almost_equal (Finite 1) (Finite 3) EQUALITY_RELATIVE_TOLERANCE =
          dlt (div64 (dabs (sub64 (Finite 1) (Finite 3)))
                     (add64 (dabs (Finite 1)) (dabs (Finite 3))))
              EQUALITY_RELATIVE_TOLERANCE"
    using C3_almost_equal_branches [of "Finite 1" "Finite 3" EQUALITY_RELATIVE_TOLERANCE]
    by simp
  then have third: "\<not> almost_equal (Finite 1) (Finite 3) EQUALITY_RELATIVE_TOLERANCE"
    unfolding d13 s13 q13 by (simp add: tolerance_value)
  from first second third large show ?thesis by simp
qed


text \<open>
  \<^bold>\<open>C10\<close>: a not-a-number operand makes \<^verbatim>\<open>almost_equal\<close> false, on either side and so
  also on both, and \<^verbatim>\<open>almost_zero\<close> of a not-a-number is false; for every tolerance,
  not-a-number and the infinities included.
\<close>

theorem C10_NaN_never_almost_equal:
  "\<not> almost_equal NaN b tol \<and> \<not> almost_equal a NaN tol \<and> \<not> almost_equal NaN NaN tol
   \<and> \<not> almost_zero NaN epsilon"
  by (simp add: almost_equal_NaN_left almost_equal_NaN_right almost_zero_def)


section \<open>Properties of the Earth-centred coordinates\<close>

lemma e2_sin_bound: "0 < 1 - 0.081819190842622 * 0.081819190842622 * (sin (lat::real))\<^sup>2"
proof -
  have "(sin lat)\<^sup>2 \<le> 1"
    by (simp add: abs_square_le_1)
  then have "0.081819190842622 * 0.081819190842622 * (sin lat)\<^sup>2
              \<le> (0.081819190842622 * 0.081819190842622 :: real) * 1"
    by (intro mult_left_mono) simp_all
  then show ?thesis by simp
qed

text \<open>
  \<^bold>\<open>C5\<close>: \<^verbatim>\<open>ECEF_from_km\<close> computes the WGS84 formula in \<^verbatim>\<open>double\<close> arithmetic
  for all arguments.  For a finite longitude and latitude in radians and a finite altitude in
  kilometres, \<^verbatim>\<open>ECEF_from_km\<close> returns the point of the WGS84 formula, with
  \<open>a = 6378.137\<close>, \<open>e\<^sup>2 = 0.081819190842622\<^sup>2\<close> and \<open>N = a / \<surd>(1 - e\<^sup>2 sin\<^sup>2 lat)\<close>.  The
  number under the root is positive, so \<open>N\<close> is a finite number and no coordinate is
  an infinity or not-a-number.  At longitude, latitude and altitude zero the point is
  \<open>(6378.137, 0, 0)\<close>.
\<close>

theorem C5_ECEF_from_km_WGS84:
  "ECEF_from_km longitude' latitude' altitude' =
     (let a = Finite 6378.137;
          e2 = dmul (Finite 0.081819190842622) (Finite 0.081819190842622);
          N = ddiv a (dsqrt (dsub (Finite 1)
                (dmul (dmul e2 (dsin latitude')) (dsin latitude'))))
      in (dmul (dmul (dadd N altitude') (dcos latitude')) (dcos longitude'),
          dmul (dmul (dadd N altitude') (dcos latitude')) (dsin longitude'),
          dmul (dadd (dmul N (dsub (Finite 1) e2)) altitude') (dsin latitude')))
   \<and> ECEF_from_km (Finite lon) (Finite lat) (Finite alt) =
     (let a = 6378.137;
          e2 = 0.081819190842622 * 0.081819190842622;
          N = a / sqrt (1 - e2 * (sin lat)\<^sup>2)
      in (Finite ((N + alt) * cos lat * cos lon),
          Finite ((N + alt) * cos lat * sin lon),
          Finite ((N * (1 - e2) + alt) * sin lat)))
   \<and> 0 < 1 - 0.081819190842622 * 0.081819190842622 * (sin lat)\<^sup>2
   \<and> ECEF_from_km (Finite 0) (Finite 0) (Finite 0) = (Finite 6378.137, Finite 0, Finite 0)"
proof -
  have pos: "0 < 1 - 0.081819190842622 * 0.081819190842622 * (sin lat)\<^sup>2"
    by (rule e2_sin_bound)
  then have nneg: "\<not> 1 - 0.081819190842622 * 0.081819190842622 * (sin lat)\<^sup>2 < 0"
    and nz: "sqrt (1 - 0.081819190842622 * 0.081819190842622 * (sin lat)\<^sup>2) \<noteq> 0"
    by simp_all
  have gen: "ECEF_from_km (Finite lon) (Finite lat) (Finite alt) =
     (let a = 6378.137;
          e2 = 0.081819190842622 * 0.081819190842622;
          N = a / sqrt (1 - e2 * (sin lat)\<^sup>2)
      in (Finite ((N + alt) * cos lat * cos lon),
          Finite ((N + alt) * cos lat * sin lon),
          Finite ((N * (1 - e2) + alt) * sin lat)))"
    using nneg nz
    by (simp add: ECEF_from_km_def Let_def dsub_def power2_eq_square mult.assoc)
  have origin: "ECEF_from_km (Finite 0) (Finite 0) (Finite 0) = (Finite 6378.137, Finite 0, Finite 0)"
    by (simp add: ECEF_from_km_def Let_def dsub_def)
  have lifted: "ECEF_from_km longitude' latitude' altitude' =
     (let a = Finite 6378.137;
          e2 = dmul (Finite 0.081819190842622) (Finite 0.081819190842622);
          N = ddiv a (dsqrt (dsub (Finite 1)
                (dmul (dmul e2 (dsin latitude')) (dsin latitude'))))
      in (dmul (dmul (dadd N altitude') (dcos latitude')) (dcos longitude'),
          dmul (dmul (dadd N altitude') (dcos latitude')) (dsin longitude'),
          dmul (dadd (dmul N (dsub (Finite 1) e2)) altitude') (dsin latitude')))"
    by (simp add: ECEF_from_km_def Let_def)
  from lifted gen pos origin show ?thesis by blast
qed

lemma real_property_value:
  "Properties p s = Some (RealProperty v) \<Longrightarrow> real_property ph p s = (v, True)"
  by (simp add: real_property_def)

lemma ECEF_present:
  "Properties p s = Some (RealProperty v) \<Longrightarrow>
     ECEF ph p ratio s =
       Inr (ECEF_from_km (radians (longitude p)) (radians (latitude p)) (dmul ratio v))"
  by (simp add: ECEF_def real_property_value Let_def)

lemma ECEF_absent:
  "\<not> has_real_property p s \<Longrightarrow> ECEF ph p ratio s = Inl (PropertyDoesNotExist s)"
  by (simp add: ECEF_def real_property_def has_real_property_def Let_def
      split: option.splits PropertyValueT.splits)

lemma has_real_property_iff:
  "has_real_property p s = (\<exists>v. Properties p s = Some (RealProperty v))"
  by (simp add: has_real_property_def split: option.splits PropertyValueT.splits)

text \<open>
  A text stored under the name, or a number stored under a name that differs in case,
  is no real property of that name: the wrapper raises.
\<close>

lemma ECEF_raises_examples:
  "ECEF NaN \<lparr>longitude = Finite 0, latitude = Finite 0, timestamp = 0,
              Properties = [''altitude'' \<mapsto> StringProperty ''high'']\<rparr> (Finite 1) ''altitude''
     = Inl (PropertyDoesNotExist ''altitude'')"
  "ECEF NaN \<lparr>longitude = Finite 0, latitude = Finite 0, timestamp = 0,
              Properties = [''altitude'' \<mapsto> RealProperty (Finite 2)]\<rparr> (Finite 1) ''Altitude''
     = Inl (PropertyDoesNotExist ''Altitude'')"
  by (simp_all add: ECEF_def real_property_def)

text \<open>
  \<^bold>\<open>C6\<close>: for every trajectory point, ratio and name, the wrapper \<^verbatim>\<open>ECEF(ratio, name)\<close>
  raises \<^verbatim>\<open>PropertyDoesNotExist\<close> (with the name as its message) exactly when the
  property store of the point has no real property of that name, and returns a point
  exactly when it has one.  The result does not depend on the placeholder the
  accessor returns for an absent property.  The method is \<^verbatim>\<open>const\<close>: the model is a
  function of the point and there is no point after the call other than the one
  before it.
\<close>

theorem C6_ECEF_raises_iff_no_real_property:
  "(ECEF ph p ratio s = Inl (PropertyDoesNotExist s)) = (\<not> has_real_property p s)
   \<and> (\<exists>e. ECEF ph p ratio s = Inl e) = (\<not> has_real_property p s)
   \<and> (\<exists>pt. ECEF ph p ratio s = Inr pt) = has_real_property p s
   \<and> has_real_property p s = (\<exists>v. Properties p s = Some (RealProperty v))
   \<and> ECEF ph p ratio s = ECEF ph' p ratio s"
proof (cases "has_real_property p s")
  case True
  then obtain v where v: "Properties p s = Some (RealProperty v)"
    by (auto simp add: has_real_property_iff)
  have "ECEF ph p ratio s = ECEF ph' p ratio s"
    by (simp add: ECEF_present [OF v])
  moreover have "\<exists>pt. ECEF ph p ratio s = Inr pt"
    using ECEF_present [OF v] by blast
  moreover have "\<not> (\<exists>e. ECEF ph p ratio s = Inl e)"
    by (simp add: ECEF_present [OF v])
  moreover have "ECEF ph p ratio s \<noteq> Inl (PropertyDoesNotExist s)"
    by (simp add: ECEF_present [OF v])
  ultimately show ?thesis
    using True has_real_property_iff [of p s] by blast
next
  case False
  then have "ECEF ph p ratio s = Inl (PropertyDoesNotExist s)"
    and "ECEF ph' p ratio s = Inl (PropertyDoesNotExist s)"
    by (simp_all add: ECEF_absent)
  then show ?thesis
    using False has_real_property_iff [of p s] by auto
qed

text \<open>
  \<^bold>\<open>C7\<close>: \<^verbatim>\<open>ECEF_from_feet(name)\<close> is \<^verbatim>\<open>ECEF(1/3280.839895013123, name)\<close> and
  \<^verbatim>\<open>ECEF_from_meters(name)\<close> is \<^verbatim>\<open>ECEF(1/1000, name)\<close>.  When the point has the
  number \<open>v\<close> stored under the name, each wrapper applies \<^verbatim>\<open>ECEF_from_km\<close> to the
  stored longitude and latitude converted from degrees to radians and to the altitude
  \<open>ratio \<sqdot> v\<close>.
\<close>

theorem C7_ECEF_from_feet_and_meters:
  "ECEF_from_feet ph p s = ECEF ph p (Finite (1 / 3280.839895013123)) s
   \<and> ECEF_from_meters ph p s = ECEF ph p (Finite (1 / 1000)) s
   \<and> (Properties p s = Some (RealProperty v) \<longrightarrow>
        ECEF ph p ratio s =
          Inr (ECEF_from_km (radians (longitude p)) (radians (latitude p)) (dmul ratio v))
        \<and> ECEF_from_feet ph p s =
          Inr (ECEF_from_km (radians (longitude p)) (radians (latitude p))
                 (dmul (Finite (1 / 3280.839895013123)) v))
        \<and> ECEF_from_meters ph p s =
          Inr (ECEF_from_km (radians (longitude p)) (radians (latitude p))
                 (dmul (Finite (1 / 1000)) v)))
   \<and> radians (Finite d) = Finite (d * pi / 180)"
  by (simp add: ECEF_from_feet_def ECEF_from_meters_def ECEF_present radians_def)

text \<open>
  A point on the equator at longitude zero with an altitude of 1000: read as metres
  it is one kilometre above the ellipsoid, read as feet it is \<open>1000 / 3280.839895013123\<close>
  kilometres above it.
\<close>

theorem C7_ECEF_from_feet_and_meters_witness:
  "Properties \<lparr>longitude = Finite 0, latitude = Finite 0, timestamp = 0,
               Properties = [''altitude'' \<mapsto> RealProperty (Finite 1000)]\<rparr> ''altitude''
     = Some (RealProperty (Finite 1000))
   \<and> ECEF_from_meters NaN \<lparr>longitude = Finite 0, latitude = Finite 0, timestamp = 0,
               Properties = [''altitude'' \<mapsto> RealProperty (Finite 1000)]\<rparr> ''altitude''
     = Inr (Finite 6379.137, Finite 0, Finite 0)
   \<and> ECEF_from_feet NaN \<lparr>longitude = Finite 0, latitude = Finite 0, timestamp = 0,
               Properties = [''altitude'' \<mapsto> RealProperty (Finite 1000)]\<rparr> ''altitude''
     = Inr (Finite (6378.137 + 1000 / 3280.839895013123), Finite 0, Finite 0)"
proof -
  let ?p = "\<lparr>longitude = Finite 0, latitude = Finite 0, timestamp = 0,
               Properties = [''altitude'' \<mapsto> RealProperty (Finite 1000)]\<rparr>"
  have present: "Properties ?p ''altitude'' = Some (RealProperty (Finite 1000))"
    by simp
  from present
    C7_ECEF_from_feet_and_meters [of NaN ?p "''altitude''" "Finite 1000" "Finite 1" 0]
  have "ECEF_from_meters NaN ?p ''altitude'' =
          Inr (ECEF_from_km (radians (longitude ?p)) (radians (latitude ?p))
                 (dmul (Finite (1 / 1000)) (Finite 1000)))"
    and "ECEF_from_feet NaN ?p ''altitude'' =
          Inr (ECEF_from_km (radians (longitude ?p)) (radians (latitude ?p))
                 (dmul (Finite (1 / 3280.839895013123)) (Finite 1000)))"
    by blast+
  with present show ?thesis
    by (simp add: radians_def ECEF_from_km_def Let_def dsub_def)
qed


section \<open>Properties of distance and speed\<close>

lemma haversine_self: "haversine (Finite x, Finite y) (Finite x, Finite y) = Finite 0"
  by (simp add: haversine_def hav_def radians_def dsub_def Let_def)

text \<open>
  The haversine angle between a point and itself is not-a-number as soon as a
  coordinate is not finite.
\<close>

lemma haversine_self_not_finite:
  "\<not> (is_finite lon \<and> is_finite lat) \<Longrightarrow> haversine (lon, lat) (lon, lat) = NaN"
  by (cases lon; cases lat)
    (simp_all add: haversine_def hav_def radians_def dsub_def Let_def inf_of_sign_def)

text \<open>
  \<^bold>\<open>C4\<close> as the specification has it: the distance of every terrestrial point to
  itself is zero.  For a point whose longitude is not-a-number the great-circle
  primitive returns not-a-number, and so does \<^verbatim>\<open>distance\<close>.
\<close>

theorem C4_distance_of_NaN_point_counterexample:
  "distance 6371 haversine \<lparr>longitude = NaN, latitude = Finite 0\<rparr>
      \<lparr>longitude = NaN, latitude = Finite 0\<rparr> = NaN
   \<and> \<not> deq (distance 6371 haversine \<lparr>longitude = NaN, latitude = Finite 0\<rparr>
            \<lparr>longitude = NaN, latitude = Finite 0\<rparr>) (Finite 0)"
  by (simp add: distance_def radians_to_km_def coords_def haversine_self_not_finite)

text \<open>
  \<^bold>\<open>C4\<close>, amended: the distance of two terrestrial points is the angle the
  great-circle primitive returns for them, in radians, converted to kilometres, which
  is the product with Earth's mean radius.  With the haversine primitive the distance
  of a point to itself is zero for every point whose longitude and latitude are
  finite, and not-a-number for every other point.  For finite coordinates the two
  differences are zero and every later value is zero or a product with zero, so
  rounding plays no part in the result.
\<close>

theorem C4_distance_is_scaled_angle:
  "distance R g from to = radians_to_km R (g (coords from) (coords to))
   \<and> radians_to_km R r = dmul r (Finite R)
   \<and> distance R haversine p p =
       (if is_finite (longitude p) \<and> is_finite (latitude p) then Finite 0 else NaN)"
proof -
  have general: "distance R g from to = radians_to_km R (g (coords from) (coords to))"
    by (simp add: distance_def)
  have product: "radians_to_km R r = dmul r (Finite R)"
    by (simp add: radians_to_km_def)
  have self: "distance R haversine p p =
       (if is_finite (longitude p) \<and> is_finite (latitude p) then Finite 0 else NaN)"
  proof (cases "is_finite (longitude p) \<and> is_finite (latitude p)")
    case True
    then obtain x y where "longitude p = Finite x" and "latitude p = Finite y"
      by (cases "longitude p"; cases "latitude p") simp_all
    with True show ?thesis
      by (simp add: distance_def radians_to_km_def coords_def haversine_self)
  next
    case False
    then show ?thesis
      by (simp add: distance_def radians_to_km_def coords_def haversine_self_not_finite)
  qed
  from general product self show ?thesis by blast
qed

lemma total_seconds_0: "total_seconds 0 = 0"
  by (simp add: total_seconds_def)

text \<open>A whole number of seconds is almost zero, at the default tolerance, only when it is zero.\<close>

lemma almost_zero_of_int:
  "almost_zero (Finite (of_int s)) EQUALITY_RELATIVE_TOLERANCE = (s = 0)"
proof (cases "s = 0")
  case True
  then show ?thesis by (simp add: almost_zero_def tolerance_value)
next
  case False
  then have "1 \<le> \<bar>s\<bar>" by simp
  then have "(1::real) \<le> \<bar>of_int s\<bar>"
    by (metis of_int_1_le_iff of_int_abs)
  then have "\<not> \<bar>of_int s :: real\<bar> < 5902958103587057 / 2 ^ 69" by simp
  with False show ?thesis by (simp add: almost_zero_def tolerance_value)
qed

lemma speed_between_unfold:
  "speed_between R g from to =
     (if total_seconds (timestamp to - timestamp from) = 0 then Finite 0
      else ddiv (dmul (Finite 3600) (distance R g from to))
                (Finite (of_int (total_seconds (timestamp to - timestamp from)))))"
  by (simp add: speed_between_def Let_def almost_zero_of_int)

text \<open>
  \<^bold>\<open>C1\<close>: \<^verbatim>\<open>speed_between(from, to)\<close> is \<open>0\<close> when the elapsed seconds are almost
  zero at the default tolerance, and \<open>3600 \<sqdot> distance(from, to) / elapsed seconds\<close>
  otherwise.  The elapsed seconds are a whole number, so they are almost zero exactly
  when they are zero; in particular the speed of two points with the same timestamp is
  \<open>0\<close>, whatever their positions.  For a finite distance \<open>d\<close> and non-zero elapsed
  seconds the speed is the number \<open>3600 d / s\<close>, and for a positive distance it is
  positive exactly when the elapsed seconds are and negative exactly when they are.
\<close>

theorem C1_speed_between:
  "speed_between R g from to =
     (if almost_zero (Finite (of_int (total_seconds (timestamp to - timestamp from))))
           EQUALITY_RELATIVE_TOLERANCE
      then Finite 0
      else ddiv (dmul (Finite 3600) (distance R g from to))
                (Finite (of_int (total_seconds (timestamp to - timestamp from)))))
   \<and> almost_zero (Finite (of_int (total_seconds (timestamp to - timestamp from))))
           EQUALITY_RELATIVE_TOLERANCE
       = (total_seconds (timestamp to - timestamp from) = 0)
   \<and> (timestamp from = timestamp to \<longrightarrow> speed_between R g from to = Finite 0)
   \<and> (total_seconds (timestamp to - timestamp from) \<noteq> 0 \<and> distance R g from to = Finite d
        \<longrightarrow> speed_between R g from to =
              Finite (3600 * d / of_int (total_seconds (timestamp to - timestamp from))))
   \<and> (distance R g from to = Finite d \<and> 0 < d
        \<longrightarrow> dlt (Finite 0) (speed_between R g from to)
              = (0 < total_seconds (timestamp to - timestamp from))
          \<and> dlt (speed_between R g from to) (Finite 0)
              = (total_seconds (timestamp to - timestamp from) < 0))"
proof -
  let ?s = "total_seconds (timestamp to - timestamp from)"
  have code: "speed_between R g from to =
     (if almost_zero (Finite (of_int ?s)) EQUALITY_RELATIVE_TOLERANCE
      then Finite 0
      else ddiv (dmul (Finite 3600) (distance R g from to)) (Finite (of_int ?s)))"
    by (simp add: speed_between_def Let_def)
  have same: "timestamp from = timestamp to \<longrightarrow> speed_between R g from to = Finite 0"
    by (simp add: speed_between_unfold total_seconds_0)
  have quotient: "?s \<noteq> 0 \<and> distance R g from to = Finite d
        \<longrightarrow> speed_between R g from to = Finite (3600 * d / of_int ?s)"
    by (simp add: speed_between_unfold)
  have sign: "distance R g from to = Finite d \<and> 0 < d
        \<longrightarrow> dlt (Finite 0) (speed_between R g from to) = (0 < ?s)
          \<and> dlt (speed_between R g from to) (Finite 0) = (?s < 0)"
    by (simp add: speed_between_unfold zero_less_divide_iff divide_less_0_iff)
  from code same quotient sign almost_zero_of_int [of ?s] show ?thesis by blast
qed

text \<open>
  Two points a quarter of the way around the equator, with a primitive that returns
  one radian and a radius of 6371: with the same timestamp the speed is \<open>0\<close>; one hour
  apart it is 6371; with the later point first it is negative.
\<close>

theorem C1_speed_between_witness:
  "speed_between 6371 (\<lambda>p q. Finite 1)
      \<lparr>longitude = Finite 0, latitude = Finite 0, timestamp = 5, Properties = Map.empty\<rparr>
      \<lparr>longitude = Finite 90, latitude = Finite 0, timestamp = 5, Properties = Map.empty\<rparr>
    = Finite 0
   \<and> total_seconds (3600000000 - 0) \<noteq> 0
   \<and> distance 6371 (\<lambda>p q. Finite 1)
      \<lparr>longitude = Finite 0, latitude = Finite 0, timestamp = 0, Properties = Map.empty\<rparr>
      \<lparr>longitude = Finite 90, latitude = Finite 0, timestamp = 3600000000, Properties = Map.empty\<rparr>
      = Finite 6371
   \<and> speed_between 6371 (\<lambda>p q. Finite 1)
      \<lparr>longitude = Finite 0, latitude = Finite 0, timestamp = 0, Properties = Map.empty\<rparr>
      \<lparr>longitude = Finite 90, latitude = Finite 0, timestamp = 3600000000, Properties = Map.empty\<rparr>
    = Finite 6371
   \<and> dlt (speed_between 6371 (\<lambda>p q. Finite 1)
      \<lparr>longitude = Finite 90, latitude = Finite 0, timestamp = 3600000000, Properties = Map.empty\<rparr>
      \<lparr>longitude = Finite 0, latitude = Finite 0, timestamp = 0, Properties = Map.empty\<rparr>)
      (Finite 0)"
  using C1_speed_between [of 6371 "\<lambda>p q. Finite 1"
      "\<lparr>longitude = Finite 0, latitude = Finite 0, timestamp = 5, Properties = Map.empty\<rparr>"
      "\<lparr>longitude = Finite 90, latitude = Finite 0, timestamp = 5, Properties = Map.empty\<rparr>"
      6371]
    C1_speed_between [of 6371 "\<lambda>p q. Finite 1"
      "\<lparr>longitude = Finite 90, latitude = Finite 0, timestamp = 3600000000, Properties = Map.empty\<rparr>"
      "\<lparr>longitude = Finite 0, latitude = Finite 0, timestamp = 0, Properties = Map.empty\<rparr>"
      6371]
    C1_speed_between [of 6371 "\<lambda>p q. Finite 1"
      "\<lparr>longitude = Finite 0, latitude = Finite 0, timestamp = 0, Properties = Map.empty\<rparr>"
      "\<lparr>longitude = Finite 90, latitude = Finite 0, timestamp = 3600000000, Properties = Map.empty\<rparr>"
      6371]
  by (simp add: distance_def radians_to_km_def total_seconds_def signed_divide_int_def)


section \<open>Properties of the delegated algorithms\<close>

text \<open>
  \<^bold>\<open>C8\<close>: for \<^verbatim>\<open>TerrestrialPoint\<close> and for \<^verbatim>\<open>TerrestrialTrajectoryPoint\<close>, each of
  \<^verbatim>\<open>interpolate\<close>, \<^verbatim>\<open>extrapolate\<close>, \<^verbatim>\<open>bearing\<close>, \<^verbatim>\<open>signed_turn_angle\<close> and
  \<^verbatim>\<open>unsigned_turn_angle\<close> is the generic implementation for the base class
  (\<^verbatim>\<open>PointLonLat\<close>, respectively \<^verbatim>\<open>TrajectoryPoint<TerrestrialPoint>\<close>) itself: the same
  implementation, hence the same result on every argument, with nothing applied to
  it.
\<close>

theorem C8_delegated_algorithms_are_generic:
  "terrestrial_algorithm generic TerrestrialPoint_t interpolate = generic PointLonLat interpolate
   \<and> terrestrial_algorithm generic TerrestrialPoint_t extrapolate = generic PointLonLat extrapolate
   \<and> terrestrial_algorithm generic TerrestrialPoint_t bearing = generic PointLonLat bearing
   \<and> terrestrial_algorithm generic TerrestrialPoint_t signed_turn_angle
       = generic PointLonLat signed_turn_angle
   \<and> terrestrial_algorithm generic TerrestrialPoint_t unsigned_turn_angle
       = generic PointLonLat unsigned_turn_angle
   \<and> terrestrial_algorithm generic TerrestrialTrajectoryPoint_t interpolate
       = generic TrajectoryPoint_TerrestrialPoint interpolate
   \<and> terrestrial_algorithm generic TerrestrialTrajectoryPoint_t extrapolate
       = generic TrajectoryPoint_TerrestrialPoint extrapolate
   \<and> terrestrial_algorithm generic TerrestrialTrajectoryPoint_t bearing
       = generic TrajectoryPoint_TerrestrialPoint bearing
   \<and> terrestrial_algorithm generic TerrestrialTrajectoryPoint_t signed_turn_angle
       = generic TrajectoryPoint_TerrestrialPoint signed_turn_angle
   \<and> terrestrial_algorithm generic TerrestrialTrajectoryPoint_t unsigned_turn_angle
       = generic TrajectoryPoint_TerrestrialPoint unsigned_turn_angle"
  by (simp add: terrestrial_algorithm_def terrestrial_delegations_def
      TT_DELEGATE_BASE_POINT_ALGORITHM_def TT_DELEGATE_TRAJECTORY_POINT_ALGORITHM_def)

end
